theory Spec2Isabelle
  imports Complex_Main "HOL-Library.AList" "HOL-Library.Multiset"
begin

section \<open>Python values and exceptions\<close>

text \<open>
  Exceptions of the Python source are values. \<open>RecursionError\<close> is what Python raises when
  the synchronous signal cascade nests deeper than the interpreter's recursion limit.
\<close>

datatype exception =
  ValueError | TypeError | KeyError | IndexError | RuntimeError
  | AttributeError | AssertionError | ZeroDivisionError | RecursionError

text \<open>
  An operation that mutates an object either returns or raises; in both cases the object
  keeps the mutations made so far, so both outcomes carry the state.
\<close>

datatype 'a outcome = Done 'a | Raised exception 'a

fun state_of :: "'a outcome \<Rightarrow> 'a" where
  "state_of (Done s) = s"
| "state_of (Raised e s) = s"

fun returned :: "'a outcome \<Rightarrow> bool" where
  "returned (Done s) = True"
| "returned (Raised e s) = False"

fun and_then :: "'a outcome \<Rightarrow> ('a \<Rightarrow> 'a outcome) \<Rightarrow> 'a outcome" where
  "and_then (Done s) f = f s"
| "and_then (Raised e s) f = Raised e s"

section \<open>node\_data.py: NodeDataType and NodeData\<close>

text \<open>\<open>NodeDataType(id, name)\<close>; the base class builds it with \<open>None\<close> for both fields.\<close>

record NodeDataType =
  dt_id :: "string option"
  dt_name :: "string option"

text \<open>
  The value bound to the class attribute \<open>data_type\<close>: Python's \<open>None\<close> or a
  \<open>NodeDataType\<close> object.
\<close>

datatype class_attr = PyNone | TypeObject NodeDataType

text \<open>\<open>class NodeData: data_type = NodeDataType(None, None)\<close>\<close>

definition NodeData_data_type :: class_attr where
  "NodeData_data_type = TypeObject \<lparr>dt_id = None, dt_name = None\<rparr>"

text \<open>
  A subclass of \<open>NodeData\<close> is given by the class bodies on its inheritance chain, most
  derived first: each body either assigns \<open>data_type\<close> (\<open>Some v\<close>) or omits it
  (\<open>None\<close>). \<open>cls.data_type\<close> is the first assignment found on the chain, else the
  attribute of \<open>NodeData\<close> itself.
\<close>

fun cls_data_type :: "class_attr option list \<Rightarrow> class_attr" where
  "cls_data_type [] = NodeData_data_type"
| "cls_data_type (Some v # bases) = v"
| "cls_data_type (None # bases) = cls_data_type bases"

text \<open>
  \<open>__init_subclass__\<close>: \<open>if cls.data_type is None: raise ValueError(...)\<close>.
\<close>

definition init_subclass :: "class_attr option list \<Rightarrow> exception + unit" where
  "init_subclass cls = (if cls_data_type cls = PyNone then Inl ValueError else Inr ())"

section \<open>calculator.py: DecimalData, IntegerData and the converters\<close>

text \<open>
  \<open>DecimalData\<close> holds a Python float, \<open>IntegerData\<close> an int. Floats are modelled by the
  reals: rounding, infinities and NaN are not represented.
\<close>

datatype NodeData = DecimalData real | IntegerData int

definition DecimalData_data_type :: NodeDataType where
  "DecimalData_data_type = \<lparr>dt_id = Some ''decimal'', dt_name = Some ''Decimal''\<rparr>"

definition IntegerData_data_type :: NodeDataType where
  "IntegerData_data_type = \<lparr>dt_id = Some ''integer'', dt_name = Some ''Integer''\<rparr>"

fun data_type :: "NodeData \<Rightarrow> NodeDataType" where
  "data_type (DecimalData x) = DecimalData_data_type"
| "data_type (IntegerData n) = IntegerData_data_type"

text \<open>
  What the expression \<open>data.number\<close> evaluates to. \<open>DecimalData.number\<close> is a
  \<open>@property\<close> and yields the float; \<open>IntegerData.number\<close> is a plain method, so the
  attribute access yields the bound method object and never calls it.
\<close>

datatype pyvalue = PyFloat real | PyMethod

fun number :: "NodeData option \<Rightarrow> exception + pyvalue" where
  "number None = Inl AttributeError"
| "number (Some (DecimalData x)) = Inr (PyFloat x)"
| "number (Some (IntegerData n)) = Inr PyMethod"

text \<open>The builtins \<open>float(v)\<close> and \<open>int(v)\<close> (truncation towards zero).\<close>

fun py_float :: "pyvalue \<Rightarrow> exception + real" where
  "py_float (PyFloat x) = Inr x"
| "py_float PyMethod = Inl TypeError"

fun py_int :: "pyvalue \<Rightarrow> exception + int" where
  "py_int (PyFloat x) = Inr (if 0 \<le> x then \<lfloor>x\<rfloor> else \<lceil>x\<rceil>)"
| "py_int PyMethod = Inl TypeError"

definition integer_to_decimal_converter :: "NodeData option \<Rightarrow> exception + NodeData option" where
  "integer_to_decimal_converter data =
     (case number data of Inl e \<Rightarrow> Inl e
      | Inr v \<Rightarrow> (case py_float v of Inl e \<Rightarrow> Inl e | Inr x \<Rightarrow> Inr (Some (DecimalData x))))"

definition decimal_to_integer_converter :: "NodeData option \<Rightarrow> exception + NodeData option" where
  "decimal_to_integer_converter data =
     (case number data of Inl e \<Rightarrow> Inl e
      | Inr v \<Rightarrow> (case py_int v of Inl e \<Rightarrow> Inl e | Inr n \<Rightarrow> Inr (Some (IntegerData n))))"

text \<open>
  A converter held by a connection or by the registry is a reference to one of the
  function objects of the program. \<open>DefaultTypeConverter\<close> comes from type\_converter.py.

  Modelled from the spec: type\_converter.py is not part of the sources; the default
  converter is taken to hand the value on unchanged.
\<close>

datatype TypeConverter =
  DefaultTypeConverter | Ref_integer_to_decimal_converter | Ref_decimal_to_integer_converter

fun call_converter :: "TypeConverter \<Rightarrow> NodeData option \<Rightarrow> exception + NodeData option" where
  "call_converter DefaultTypeConverter data = Inr data"
| "call_converter Ref_integer_to_decimal_converter data = integer_to_decimal_converter data"
| "call_converter Ref_decimal_to_integer_converter data = decimal_to_integer_converter data"

text \<open>
  Modelled from the spec: data\_model\_registry.py is not part of the sources. The Type
  Converter Registry is a mapping from (source type id, destination type id) to a
  conversion function, here an association list in registration order;
  \<open>register_type_converter(type_in, type_out, converter)\<close> keys the entry by the two
  classes' \<open>data_type.id\<close>.
\<close>

type_synonym converter_table = "((string option \<times> string option) \<times> TypeConverter) list"

definition register_type_converter ::
  "NodeDataType \<Rightarrow> NodeDataType \<Rightarrow> TypeConverter \<Rightarrow> converter_table \<Rightarrow> converter_table" where
  "register_type_converter type_in type_out converter table =
     AList.update (dt_id type_in, dt_id type_out) converter table"

definition get_type_converter ::
  "converter_table \<Rightarrow> NodeDataType \<Rightarrow> NodeDataType \<Rightarrow> TypeConverter option" where
  "get_type_converter table d1 d2 = map_of table (dt_id d1, dt_id d2)"

text \<open>
  The two registrations of \<open>main\<close>, in order: both pass
  \<open>decimal_to_integer_converter\<close>.
\<close>

definition main_type_converters :: converter_table where
  "main_type_converters =
     register_type_converter IntegerData_data_type DecimalData_data_type
       Ref_decimal_to_integer_converter
       (register_type_converter DecimalData_data_type IntegerData_data_type
          Ref_decimal_to_integer_converter [])"


section \<open>calculator.py: the node data models\<close>

datatype NodeValidationState = valid | warning | error

datatype PortType = In | Out

type_synonym PortIndex = nat

datatype ConnectionPolicy = one | many

text \<open>
  Arithmetic on what \<open>.number\<close> evaluated to: floats compute, a bound method is no
  operand. \<open>==\<close> between a bound method and a float is \<open>False\<close>.
\<close>

fun py_add :: "pyvalue \<Rightarrow> pyvalue \<Rightarrow> exception + real" where
  "py_add (PyFloat a) (PyFloat b) = Inr (a + b)"
| "py_add _ _ = Inl TypeError"

fun py_sub :: "pyvalue \<Rightarrow> pyvalue \<Rightarrow> exception + real" where
  "py_sub (PyFloat a) (PyFloat b) = Inr (a - b)"
| "py_sub _ _ = Inl TypeError"

fun py_mul :: "pyvalue \<Rightarrow> pyvalue \<Rightarrow> exception + real" where
  "py_mul (PyFloat a) (PyFloat b) = Inr (a * b)"
| "py_mul _ _ = Inl TypeError"

fun py_truediv :: "pyvalue \<Rightarrow> pyvalue \<Rightarrow> exception + real" where
  "py_truediv (PyFloat a) (PyFloat b) = (if b = 0 then Inl ZeroDivisionError else Inr (a / b))"
| "py_truediv _ _ = Inl TypeError"

fun py_eq_float :: "pyvalue \<Rightarrow> real \<Rightarrow> bool" where
  "py_eq_float (PyFloat a) x = (a = x)"
| "py_eq_float PyMethod x = False"

text \<open>
  \<open>self._number1.number \<circ> self._number2.number\<close>: both attribute accesses, left to
  right, then the operator.
\<close>

definition number_binop ::
  "(pyvalue \<Rightarrow> pyvalue \<Rightarrow> exception + real) \<Rightarrow> NodeData option \<Rightarrow> NodeData option
   \<Rightarrow> exception + real" where
  "number_binop f d1 d2 =
     (case number d1 of Inl e \<Rightarrow> Inl e
      | Inr a \<Rightarrow> (case number d2 of Inl e \<Rightarrow> Inl e | Inr b \<Rightarrow> f a b))"

record MathOperationDataModel =
  number1 :: "NodeData option"
  number2 :: "NodeData option"
  result :: "NodeData option"
  validation_state :: NodeValidationState
  validation_message :: string

text \<open>\<open>MathOperationDataModel.__init__\<close>\<close>

definition MathOperationDataModel_init :: MathOperationDataModel where
  "MathOperationDataModel_init =
     \<lparr>number1 = None, number2 = None, result = None,
      validation_state = warning, validation_message = ''Uninitialized''\<rparr>"

text \<open>
  \<open>self._numberN is not None and self._numberN.data_type.id in ('Decimal', 'integer')\<close>
\<close>

definition number_ok :: "NodeData option \<Rightarrow> bool" where
  "number_ok d =
     (case d of None \<Rightarrow> False
      | Some x \<Rightarrow> dt_id (data_type x) \<in> set [Some ''Decimal'', Some ''integer''])"

text \<open>
  \<open>_check_inputs\<close> returns its boolean, the mutated model and the ports for which it
  emitted \<open>data_updated\<close>. The signal is the last effect on its path, so handing the
  emissions back to the caller keeps the order of effects.
\<close>

definition check_inputs ::
  "MathOperationDataModel \<Rightarrow> bool \<times> MathOperationDataModel \<times> PortIndex list" where
  "check_inputs m =
     (let number1_ok = number_ok (number1 m);
          number2_ok = number_ok (number2 m)
      in if \<not> number1_ok \<or> \<not> number2_ok
         then (False,
               m\<lparr>validation_state := warning,
                 validation_message := ''Missing or incorrect inputs'',
                 result := None\<rparr>,
               [0])
         else (True, m\<lparr>validation_state := valid, validation_message := []\<rparr>, []))"

text \<open>
  The subclasses of \<open>MathOperationDataModel\<close> and their \<open>compute\<close>. \<open>ModuloModel\<close> is
  left out: no property below is about it.
\<close>

datatype MathOperation = Addition | Subtraction | Multiplication | Division

fun compute :: "MathOperation \<Rightarrow> MathOperationDataModel \<Rightarrow> MathOperationDataModel outcome" where
  "compute Addition m =
     (case number_binop py_add (number1 m) (number2 m) of
        Inl e \<Rightarrow> Raised e m
      | Inr x \<Rightarrow> Done (m\<lparr>result := Some (DecimalData x)\<rparr>))"
| "compute Subtraction m =
     (let m1 = m\<lparr>validation_state := valid, validation_message := []\<rparr>
      in case number_binop py_sub (number1 m1) (number2 m1) of
           Inl e \<Rightarrow> Raised e m1
         | Inr x \<Rightarrow> Done (m1\<lparr>result := Some (DecimalData x)\<rparr>))"
| "compute Multiplication m =
     (case number_binop py_mul (number1 m) (number2 m) of
        Inl e \<Rightarrow> Raised e m
      | Inr x \<Rightarrow> Done (m\<lparr>result := Some (DecimalData x)\<rparr>))"
| "compute Division m =
     (case number (number2 m) of
        Inl e \<Rightarrow> Raised e m
      | Inr b \<Rightarrow>
          if py_eq_float b 0
          then Done (m\<lparr>validation_state := error,
                       validation_message := ''Division by zero error'',
                       result := None\<rparr>)
          else (let m1 = m\<lparr>validation_state := valid, validation_message := []\<rparr>
                in case number_binop py_truediv (number1 m1) (number2 m1) of
                     Inl e \<Rightarrow> Raised e m1
                   | Inr x \<Rightarrow> Done (m1\<lparr>result := Some (DecimalData x)\<rparr>)))"

text \<open>
  \<open>_compute_lock\<close>: raises when an input is falsy (only \<open>None\<close> is: the data classes
  define neither \<open>__bool__\<close> nor \<open>__len__\<close>), runs the body, and emits
  \<open>data_updated(0)\<close> when the body returned.
\<close>

definition compute_lock ::
  "MathOperationDataModel \<Rightarrow> (MathOperationDataModel \<Rightarrow> MathOperationDataModel outcome)
   \<Rightarrow> (MathOperationDataModel \<times> PortIndex list) outcome" where
  "compute_lock m body =
     (if number1 m = None \<or> number2 m = None then Raised RuntimeError (m, [])
      else (case body m of
              Raised e m' \<Rightarrow> Raised e (m', [])
            | Done m' \<Rightarrow> Done (m', [0])))"

text \<open>\<open>MathOperationDataModel.set_in_data\<close>\<close>

definition set_in_data ::
  "MathOperation \<Rightarrow> MathOperationDataModel \<Rightarrow> NodeData option \<Rightarrow> PortIndex
   \<Rightarrow> (MathOperationDataModel \<times> PortIndex list) outcome" where
  "set_in_data op m data port_index =
     (let m1 = (if port_index = 0 then m\<lparr>number1 := data\<rparr>
                else if port_index = 1 then m\<lparr>number2 := data\<rparr>
                else m)
      in case check_inputs m1 of
           (ok, m2, emitted) \<Rightarrow>
             if ok then compute_lock m2 (compute op) else Done (m2, emitted))"

text \<open>
  \<open>NumberDisplayModel\<close>. It defines no \<open>validation_state\<close> method, so the one of the
  base class answers.
\<close>

record NumberDisplayModel =
  display_number :: "NodeData option"
  display_validation_state :: NodeValidationState
  display_validation_message :: string

definition NumberDisplayModel_init :: NumberDisplayModel where
  "NumberDisplayModel_init =
     \<lparr>display_number = None, display_validation_state = warning,
      display_validation_message = ''Uninitialized''\<rparr>"

definition display_set_in_data :: "NumberDisplayModel \<Rightarrow> NodeData option \<Rightarrow> NumberDisplayModel" where
  "display_set_in_data d data =
     (if number_ok data
      then d\<lparr>display_number := data, display_validation_state := valid,
             display_validation_message := []\<rparr>
      else d\<lparr>display_number := data, display_validation_state := warning,
             display_validation_message := ''Missing or incorrect inputs''\<rparr>)"

text \<open>
  A node data model is one of the concrete classes with its instance state. The state of
  \<open>NumberSourceDataModel\<close> is \<open>_number\<close>, which is \<open>None\<close> or a \<open>DecimalData\<close>: its float
  is kept.
\<close>

datatype NodeDataModel =
  MathOperationModel MathOperation MathOperationDataModel
  | NumberSourceDataModel "real option"
  | NumberDisplay NumberDisplayModel

fun model_name :: "NodeDataModel \<Rightarrow> string" where
  "model_name (MathOperationModel Addition m) = ''Addition''"
| "model_name (MathOperationModel Subtraction m) = ''Subtraction''"
| "model_name (MathOperationModel Multiplication m) = ''Multiplication''"
| "model_name (MathOperationModel Division m) = ''Division''"
| "model_name (NumberSourceDataModel n) = ''NumberSource''"
| "model_name (NumberDisplay d) = ''NumberDisplay''"

fun n_ports :: "NodeDataModel \<Rightarrow> PortType \<Rightarrow> nat" where
  "n_ports (MathOperationModel op m) In = 2"
| "n_ports (MathOperationModel op m) Out = 1"
| "n_ports (NumberSourceDataModel n) In = 0"
| "n_ports (NumberSourceDataModel n) Out = 1"
| "n_ports (NumberDisplay d) In = 1"
| "n_ports (NumberDisplay d) Out = 0"

text \<open>\<open>model.data_type(port_type, port_index)\<close>: every modelled class answers Decimal.\<close>

fun port_data_type :: "NodeDataModel \<Rightarrow> PortType \<Rightarrow> PortIndex \<Rightarrow> NodeDataType" where
  "port_data_type model port_type port_index = DecimalData_data_type"

fun port_out_connection_policy :: "NodeDataModel \<Rightarrow> PortIndex \<Rightarrow> ConnectionPolicy" where
  "port_out_connection_policy model port_index = many"

fun out_data :: "NodeDataModel \<Rightarrow> PortIndex \<Rightarrow> NodeData option" where
  "out_data (MathOperationModel op m) port = result m"
| "out_data (NumberSourceDataModel n) port = map_option DecimalData n"
| "out_data (NumberDisplay d) port = None"

fun model_validation_state :: "NodeDataModel \<Rightarrow> NodeValidationState" where
  "model_validation_state (MathOperationModel op m) = validation_state m"
| "model_validation_state (NumberSourceDataModel n) = valid"
| "model_validation_state (NumberDisplay d) = valid"

text \<open>
  \<open>model.set_in_data(data, port)\<close>, dispatched on the class; the source node inherits the
  empty method of the base class.
\<close>

fun model_set_in_data ::
  "NodeDataModel \<Rightarrow> NodeData option \<Rightarrow> PortIndex \<Rightarrow> (NodeDataModel \<times> PortIndex list) outcome" where
  "model_set_in_data (MathOperationModel op m) data port =
     (case set_in_data op m data port of
        Done (m', emitted) \<Rightarrow> Done (MathOperationModel op m', emitted)
      | Raised e (m', emitted) \<Rightarrow> Raised e (MathOperationModel op m', emitted))"
| "model_set_in_data (NumberSourceDataModel n) data port = Done (NumberSourceDataModel n, [])"
| "model_set_in_data (NumberDisplay d) data port =
     Done (NumberDisplay (display_set_in_data d data), [])"

text \<open>
  \<open>NumberSourceDataModel.on_text_edited\<close>, given what \<open>float(text)\<close> returned (\<open>None\<close>
  for its \<open>ValueError\<close>). The handler of the error reads \<open>self._data_invalidated\<close>, an
  attribute the class does not have.
\<close>

fun on_text_edited ::
  "real option \<Rightarrow> real option \<Rightarrow> (real option \<times> PortIndex list) outcome" where
  "on_text_edited n None = Raised AttributeError (n, [])"
| "on_text_edited n (Some x) = Done (Some x, [0])"

text \<open>
  The instances the classes construct. The constructor of the source node sets the text of
  its line edit to \<open>0.0\<close>, which runs \<open>on_text_edited\<close>.
\<close>

definition AdditionModel :: NodeDataModel where
  "AdditionModel = MathOperationModel Addition MathOperationDataModel_init"

definition SubtractionModel :: NodeDataModel where
  "SubtractionModel = MathOperationModel Subtraction MathOperationDataModel_init"

definition MultiplicationModel :: NodeDataModel where
  "MultiplicationModel = MathOperationModel Multiplication MathOperationDataModel_init"

definition DivisionModel :: NodeDataModel where
  "DivisionModel = MathOperationModel Division MathOperationDataModel_init"

definition NumberSourceDataModel_init :: NodeDataModel where
  "NumberSourceDataModel_init = NumberSourceDataModel (Some 0)"

definition NumberDisplay_init :: NodeDataModel where
  "NumberDisplay_init = NumberDisplay NumberDisplayModel_init"


section \<open>Connections, ports and nodes\<close>

text \<open>
  \<open>QUuid\<close> identifiers are abstract; naturals stand for them. A node object is referred to
  by the key under which the scene's \<open>_nodes\<close> dictionary holds it.
\<close>

type_synonym QUuid = nat

text \<open>
  Modelled from the spec: connection.py is not part of the sources. A connection is the
  directed edge \<open>{out_node, out_port_index, in_node, in_port_index, converter}\<close>; an endpoint
  that is not bound yet is \<open>None\<close>. \<open>conn_id\<close> stands for the identity of the Python
  object, which is what \<open>==\<close> and \<open>in\<close> compare for connections.
\<close>

record Connection =
  conn_id :: nat
  conn_in_node :: "QUuid option"
  conn_in_index :: PortIndex
  conn_out_node :: "QUuid option"
  conn_out_index :: PortIndex
  conn_converter :: "TypeConverter option"

text \<open>\<open>Connection.from_nodes\<close>: both endpoints bound.\<close>

definition from_nodes ::
  "nat \<Rightarrow> QUuid \<Rightarrow> PortIndex \<Rightarrow> QUuid \<Rightarrow> PortIndex \<Rightarrow> TypeConverter option \<Rightarrow> Connection" where
  "from_nodes cid node_in port_index_in node_out port_index_out converter =
     \<lparr>conn_id = cid, conn_in_node = Some node_in, conn_in_index = port_index_in,
      conn_out_node = Some node_out, conn_out_index = port_index_out,
      conn_converter = converter\<rparr>"

text \<open>\<open>conn.get_node(port_type)\<close>\<close>

fun get_node :: "Connection \<Rightarrow> PortType \<Rightarrow> QUuid option" where
  "get_node c In = conn_in_node c"
| "get_node c Out = conn_out_node c"

definition is_complete :: "Connection \<Rightarrow> bool" where
  "is_complete c = (conn_in_node c \<noteq> None \<and> conn_out_node c \<noteq> None)"

subsection \<open>port.py: Port\<close>

record Port =
  port_type :: PortType
  port_index :: PortIndex
  port_connections :: "Connection list"

text \<open>
  \<open>Port.connection_policy\<close>: an input port answers \<open>ConnectionPolicy.one\<close>. The other
  branch reads \<open>self.model\<close>, an attribute \<open>Port\<close> does not define (its property is called
  \<open>data_model\<close>).
\<close>

definition connection_policy :: "Port \<Rightarrow> exception + ConnectionPolicy" where
  "connection_policy p = (if port_type p = In then Inr one else Inl AttributeError)"

text \<open>
  \<open>Port.can_connect\<close>: \<open>not self._connections or self.connection_policy == many\<close>.
\<close>

definition can_connect :: "Port \<Rightarrow> exception + bool" where
  "can_connect p =
     (if port_connections p = [] then Inr True
      else (case connection_policy p of Inl e \<Rightarrow> Inl e | Inr policy \<Rightarrow> Inr (policy = many)))"

definition add_connection :: "Port \<Rightarrow> Connection \<Rightarrow> exception + Port" where
  "add_connection p connection =
     (if connection \<in> set (port_connections p) then Inl ValueError
      else Inr (p\<lparr>port_connections := port_connections p @ [connection]\<rparr>))"

text \<open>\<open>Port.remove_connection\<close>: the \<open>ValueError\<close> of \<open>list.remove\<close> is swallowed.\<close>

definition remove_connection :: "Port \<Rightarrow> Connection \<Rightarrow> Port" where
  "remove_connection p connection =
     p\<lparr>port_connections := remove1 connection (port_connections p)\<rparr>"

subsection \<open>Node state and node\<close>

text \<open>
  Modelled from the spec: node\_state.py is not part of the sources. The port-state holder
  maps (direction, index) to the connections of that port, 0 or 1 for an input and any
  number for an output; it is built with one port per declared index. \<open>set_connection\<close>
  registers a connection on a port: on an input port it becomes the port's one connection,
  on an output port it is added. \<open>erase_connection\<close> detaches a connection. An index
  outside the declared ports raises \<open>IndexError\<close>.
\<close>

record NodeState =
  in_ports :: "Port list"
  out_ports :: "Port list"

definition make_ports :: "PortType \<Rightarrow> nat \<Rightarrow> Port list" where
  "make_ports t n = map (\<lambda>i. \<lparr>port_type = t, port_index = i, port_connections = []\<rparr>) [0..<n]"

definition NodeState_init :: "NodeDataModel \<Rightarrow> NodeState" where
  "NodeState_init model =
     \<lparr>in_ports = make_ports In (n_ports model In), out_ports = make_ports Out (n_ports model Out)\<rparr>"

fun get_entries :: "NodeState \<Rightarrow> PortType \<Rightarrow> Port list" where
  "get_entries st In = in_ports st"
| "get_entries st Out = out_ports st"

fun set_entries :: "NodeState \<Rightarrow> PortType \<Rightarrow> Port list \<Rightarrow> NodeState" where
  "set_entries st In ps = st\<lparr>in_ports := ps\<rparr>"
| "set_entries st Out ps = st\<lparr>out_ports := ps\<rparr>"

text \<open>The connections attached to a port, as the holder itself reads them.\<close>

definition attached :: "NodeState \<Rightarrow> PortType \<Rightarrow> PortIndex \<Rightarrow> exception + Connection list" where
  "attached st t i =
     (if i < length (get_entries st t) then Inr (port_connections (get_entries st t ! i))
      else Inl IndexError)"

text \<open>
  \<open>node_state.connections(port_type, port_index)\<close>, as flow\_scene.py calls it. For a port
  with connections it answers their collection. What it answers for a port without
  connection is settled neither by the spec nor by the sources, which test the answer
  for \<open>None\<close> in one place and iterate over it in another: the answer for such a port is a
  parameter, Python's \<open>None\<close> or an empty collection.
\<close>

datatype empty_port_answer = AnswersNone | AnswersEmpty

definition connections ::
  "empty_port_answer \<Rightarrow> NodeState \<Rightarrow> PortType \<Rightarrow> PortIndex
   \<Rightarrow> exception + Connection list option" where
  "connections answer st t i =
     (case attached st t i of
        Inl e \<Rightarrow> Inl e
      | Inr cs \<Rightarrow> if cs = [] \<and> answer = AnswersNone then Inr None else Inr (Some cs))"

definition attach :: "PortType \<Rightarrow> Port \<Rightarrow> Connection \<Rightarrow> Port" where
  "attach t p connection =
     (case t of
        In \<Rightarrow> p\<lparr>port_connections := [connection]\<rparr>
      | Out \<Rightarrow> p\<lparr>port_connections := port_connections p @ [connection]\<rparr>)"

definition set_connection ::
  "NodeState \<Rightarrow> PortType \<Rightarrow> PortIndex \<Rightarrow> Connection \<Rightarrow> exception + NodeState" where
  "set_connection st t i connection =
     (if i < length (get_entries st t)
      then Inr (set_entries st t ((get_entries st t)[i := attach t (get_entries st t ! i) connection]))
      else Inl IndexError)"

definition erase_connection ::
  "NodeState \<Rightarrow> PortType \<Rightarrow> PortIndex \<Rightarrow> Connection \<Rightarrow> NodeState" where
  "erase_connection st t i connection =
     (if i < length (get_entries st t)
      then set_entries st t
             ((get_entries st t)[i := remove_connection (get_entries st t ! i) connection])
      else st)"

definition all_connections :: "NodeState \<Rightarrow> Connection list" where
  "all_connections st = concat (map port_connections (in_ports st @ out_ports st))"

text \<open>
  Modelled from the spec: node.py is not part of the sources. A node wraps one node data
  model, has a position and the port-state holder; its identifier is its key in the scene.
\<close>

record Node =
  node_data_model :: NodeDataModel
  node_state :: NodeState
  node_position :: "real \<times> real"

definition Node_init :: "NodeDataModel \<Rightarrow> Node" where
  "Node_init data_model =
     \<lparr>node_data_model = data_model, node_state = NodeState_init data_model,
      node_position = (0, 0)\<rparr>"

section \<open>flow\_scene.py: FlowScene\<close>

text \<open>
  Modelled from the spec: data\_model\_registry.py is not part of the sources. The registry
  maps a model name to a factory (here: to the freshly constructed instance) and holds the
  type converter table; \<open>create\<close> answers \<open>None\<close> for a name that is not registered.
\<close>

record DataModelRegistry =
  registered_models :: "(string \<times> NodeDataModel) list"
  type_converters :: converter_table

definition create :: "DataModelRegistry \<Rightarrow> string \<Rightarrow> NodeDataModel option" where
  "create registry name = map_of (registered_models registry) name"

text \<open>
  The scene: \<open>_connections\<close> is a list, \<open>_nodes\<close> a dictionary from identifier to node,
  kept as an association list in insertion order.
\<close>

record FlowScene =
  scene_connections :: "Connection list"
  scene_nodes :: "(QUuid \<times> Node) list"
  scene_registry :: DataModelRegistry

definition FlowScene_init :: "DataModelRegistry \<Rightarrow> FlowScene" where
  "FlowScene_init registry =
     \<lparr>scene_connections = [], scene_nodes = [], scene_registry = registry\<rparr>"

definition set_model :: "QUuid \<Rightarrow> NodeDataModel \<Rightarrow> FlowScene \<Rightarrow> FlowScene" where
  "set_model uid m sc =
     sc\<lparr>scene_nodes := AList.map_entry uid (\<lambda>n. n\<lparr>node_data_model := m\<rparr>) (scene_nodes sc)\<rparr>"

definition set_state :: "QUuid \<Rightarrow> NodeState \<Rightarrow> FlowScene \<Rightarrow> FlowScene" where
  "set_state uid st sc =
     sc\<lparr>scene_nodes := AList.map_entry uid (\<lambda>n. n\<lparr>node_state := st\<rparr>) (scene_nodes sc)\<rparr>"

subsection \<open>Propagation of data\<close>

text \<open>
  Modelled from the spec: the propagation protocol lives in node.py and connection.py,
  which are not part of the sources. On an output-value change the node reads its
  model's current output for the port and hands it to every connection of that port
  (\<open>on_data_updated\<close>); the connection applies its converter, if it has one, and delivers
  the value to the destination model's \<open>set_in_data\<close> (\<open>propagate_data\<close>); the signals
  \<open>data_updated\<close> that the destination model emits repeat the step downstream, all within
  one call stack. The first argument bounds the nesting depth of \<open>on_data_updated\<close>, as
  the interpreter's recursion limit does; \<open>RecursionError\<close> is raised beyond it.
  A connection endpoint that names no node of the scene raises \<open>KeyError\<close>.
\<close>

text \<open>
  What \<open>Node.on_data_updated(index)\<close> reads: the model's output for the port and the
  connections of that output port.
\<close>

definition deliveries :: "FlowScene \<Rightarrow> QUuid \<Rightarrow> PortIndex \<Rightarrow> exception + (NodeData option \<times> Connection list)" where
  "deliveries sc uid index =
     (case map_of (scene_nodes sc) uid of
        None \<Rightarrow> Inl KeyError
      | Some node \<Rightarrow>
          (case attached (node_state node) Out index of
             Inl e \<Rightarrow> Inl e
           | Inr cs \<Rightarrow> Inr (out_data (node_data_model node) index, cs)))"

text \<open>The value a connection hands on: through its converter, if it has one.\<close>

definition converted :: "Connection \<Rightarrow> NodeData option \<Rightarrow> exception + NodeData option" where
  "converted c node_data = (case conn_converter c of
                   None \<Rightarrow> Inr node_data
                 | Some converter \<Rightarrow> call_converter converter node_data)"

text \<open>
  \<open>Node.propagate_data(node_data, in_port_index)\<close>: the destination model's
  \<open>set_in_data\<close>, mutating the node in the scene; the signals it emitted are handed back.
\<close>

definition deliver :: "QUuid \<Rightarrow> NodeData option \<Rightarrow> PortIndex \<Rightarrow> FlowScene \<Rightarrow> (FlowScene \<times> PortIndex list) outcome" where
  "deliver uid node_data in_port_index sc =
     (case map_of (scene_nodes sc) uid of
        None \<Rightarrow> Raised KeyError (sc, [])
      | Some node \<Rightarrow>
          (case model_set_in_data (node_data_model node) node_data in_port_index of
             Raised e (m, emitted) \<Rightarrow> Raised e (set_model uid m sc, [])
           | Done (m, emitted) \<Rightarrow> Done (set_model uid m sc, emitted)))"

text \<open>
  Termination: the depth bound decreases from \<open>on_data_updated\<close> into its loop; at equal
  depth the calls go down the order loop over connections, delivery, loop over signals,
  \<open>on_data_updated\<close>, and each loop shortens its list.
\<close>

type_synonym cascade_call =
  "((nat \<times> QUuid \<times> PortIndex \<times> FlowScene)
    + (nat \<times> NodeData option \<times> Connection list \<times> FlowScene))
   + ((nat \<times> QUuid \<times> NodeData option \<times> PortIndex \<times> FlowScene)
      + (nat \<times> QUuid \<times> PortIndex list \<times> FlowScene))"

definition cascade_depth :: "cascade_call \<Rightarrow> nat" where
  "cascade_depth x =
     (case x of Inl (Inl (d, _)) \<Rightarrow> d | Inl (Inr (d, _)) \<Rightarrow> d
      | Inr (Inl (d, _)) \<Rightarrow> d | Inr (Inr (d, _)) \<Rightarrow> d)"

definition cascade_rank :: "cascade_call \<Rightarrow> nat" where
  "cascade_rank x =
     (case x of Inl (Inl _) \<Rightarrow> 0 | Inl (Inr _) \<Rightarrow> 3 | Inr (Inl _) \<Rightarrow> 2 | Inr (Inr _) \<Rightarrow> 1)"

definition cascade_pending :: "cascade_call \<Rightarrow> nat" where
  "cascade_pending x =
     (case x of Inl (Inl _) \<Rightarrow> 0 | Inl (Inr (_, _, cs, _)) \<Rightarrow> length cs
      | Inr (Inl _) \<Rightarrow> 0 | Inr (Inr (_, _, ps, _)) \<Rightarrow> length ps)"

function (sequential) on_data_updated :: "nat \<Rightarrow> QUuid \<Rightarrow> PortIndex \<Rightarrow> FlowScene \<Rightarrow> FlowScene outcome"
  and propagate_all :: "nat \<Rightarrow> NodeData option \<Rightarrow> Connection list \<Rightarrow> FlowScene \<Rightarrow> FlowScene outcome"
  and propagate_data :: "nat \<Rightarrow> QUuid \<Rightarrow> NodeData option \<Rightarrow> PortIndex \<Rightarrow> FlowScene \<Rightarrow> FlowScene outcome"
  and emit_data_updated :: "nat \<Rightarrow> QUuid \<Rightarrow> PortIndex list \<Rightarrow> FlowScene \<Rightarrow> FlowScene outcome"
where
  "on_data_updated 0 uid index sc = Raised RecursionError sc"
| "on_data_updated (Suc depth) uid index sc =
     (case deliveries sc uid index of
        Inl e \<Rightarrow> Raised e sc
      | Inr (node_data, cs) \<Rightarrow> propagate_all depth node_data cs sc)"
| "propagate_all depth node_data [] sc = Done sc"
| "propagate_all depth node_data (c # cs) sc =
     (case conn_in_node c of
        None \<Rightarrow> propagate_all depth node_data cs sc
      | Some node_in \<Rightarrow>
          (case converted c node_data of
             Inl e \<Rightarrow> Raised e sc
           | Inr v \<Rightarrow>
               (case propagate_data depth node_in v (conn_in_index c) sc of
                  Raised e sc' \<Rightarrow> Raised e sc'
                | Done sc' \<Rightarrow> propagate_all depth node_data cs sc')))"
| "propagate_data depth uid node_data in_port_index sc =
     (case deliver uid node_data in_port_index sc of
        Raised e (sc', emitted) \<Rightarrow> Raised e sc'
      | Done (sc', emitted) \<Rightarrow> emit_data_updated depth uid emitted sc')"
| "emit_data_updated depth uid [] sc = Done sc"
| "emit_data_updated depth uid (index # rest) sc =
     (case on_data_updated depth uid index sc of
        Raised e sc' \<Rightarrow> Raised e sc'
      | Done sc' \<Rightarrow> emit_data_updated depth uid rest sc')"
  by pat_completeness auto

termination
  by (relation "cascade_depth <*mlex*> cascade_rank <*mlex*> measure cascade_pending")
     (auto simp: wf_mlex mlex_prod_def cascade_depth_def cascade_rank_def cascade_pending_def)


subsection \<open>Creating and deleting nodes and connections\<close>

text \<open>
  \<open>create_node\<close>: the node registers under its identifier, which is fresh in the source
  and an argument here.
\<close>

definition create_node :: "QUuid \<Rightarrow> NodeDataModel \<Rightarrow> FlowScene \<Rightarrow> FlowScene" where
  "create_node uid data_model sc =
     sc\<lparr>scene_nodes := AList.update uid (Node_init data_model) (scene_nodes sc)\<rparr>"

text \<open>\<open>node.node_state().set_connection(port_type, port_index, connection)\<close>\<close>

definition node_set_connection ::
  "QUuid \<Rightarrow> PortType \<Rightarrow> PortIndex \<Rightarrow> Connection \<Rightarrow> FlowScene \<Rightarrow> FlowScene outcome" where
  "node_set_connection uid t i connection sc =
     (case map_of (scene_nodes sc) uid of
        None \<Rightarrow> Raised KeyError sc
      | Some node \<Rightarrow>
          (case set_connection (node_state node) t i connection of
             Inl e \<Rightarrow> Raised e sc
           | Inr st \<Rightarrow> Done (set_state uid st sc)))"

text \<open>
  \<open>send_connection_created_to_nodes\<close>: two assertions, then the hooks of the two models,
  which are empty methods.
\<close>

definition send_connection_created_to_nodes :: "Connection \<Rightarrow> FlowScene \<Rightarrow> FlowScene outcome" where
  "send_connection_created_to_nodes c sc =
     (if get_node c Out = None then Raised AssertionError sc
      else if get_node c In = None then Raised AssertionError sc
      else Done sc)"

text \<open>
  \<open>create_connection\<close>: build the connection, register it on the input port and on the
  output port, trigger the propagation from the output port, append it to
  \<open>_connections\<close>, emit \<open>connection_created\<close>. The second argument is the identity of the
  new connection object.
\<close>

definition create_connection ::
  "nat \<Rightarrow> nat \<Rightarrow> QUuid \<Rightarrow> PortIndex \<Rightarrow> QUuid \<Rightarrow> PortIndex \<Rightarrow> TypeConverter option
   \<Rightarrow> FlowScene \<Rightarrow> FlowScene outcome" where
  "create_connection depth cid node_in port_index_in node_out port_index_out converter sc =
     (let connection = from_nodes cid node_in port_index_in node_out port_index_out converter
      in and_then (node_set_connection node_in In port_index_in connection sc) (\<lambda>sc1.
         and_then (node_set_connection node_out Out port_index_out connection sc1) (\<lambda>sc2.
         and_then (on_data_updated depth node_out port_index_out sc2) (\<lambda>sc3.
         send_connection_created_to_nodes connection
           (sc3\<lparr>scene_connections := scene_connections sc3 @ [connection]\<rparr>)))))"

text \<open>
  Modelled from the spec: \<open>Connection.remove_from_nodes\<close> is in connection.py, which is not
  part of the sources. Removing a connection detaches it from both ports and propagates the
  retraction, a \<open>None\<close> value, to the destination input.
\<close>

definition node_erase_connection ::
  "QUuid \<Rightarrow> PortType \<Rightarrow> PortIndex \<Rightarrow> Connection \<Rightarrow> FlowScene \<Rightarrow> FlowScene" where
  "node_erase_connection uid t i connection sc =
     sc\<lparr>scene_nodes :=
          AList.map_entry uid (\<lambda>n. n\<lparr>node_state := erase_connection (node_state n) t i connection\<rparr>)
            (scene_nodes sc)\<rparr>"

definition detach :: "Connection \<Rightarrow> FlowScene \<Rightarrow> FlowScene" where
  "detach c sc =
     (let sc1 = (case conn_in_node c of
                   None \<Rightarrow> sc
                 | Some node_in \<Rightarrow> node_erase_connection node_in In (conn_in_index c) c sc)
      in case conn_out_node c of
           None \<Rightarrow> sc1
         | Some node_out \<Rightarrow> node_erase_connection node_out Out (conn_out_index c) c sc1)"

definition remove_from_nodes :: "nat \<Rightarrow> Connection \<Rightarrow> FlowScene \<Rightarrow> FlowScene outcome" where
  "remove_from_nodes depth c sc =
     (case conn_in_node c of
        None \<Rightarrow> Done (detach c sc)
      | Some node_in \<Rightarrow> propagate_data depth node_in None (conn_in_index c) (detach c sc))"

text \<open>
  \<open>delete_connection\<close>: \<open>list.remove\<close> drops the first equal element; when the connection
  is not in the list its \<open>ValueError\<close> is swallowed and nothing else happens.
\<close>

definition delete_connection :: "nat \<Rightarrow> Connection \<Rightarrow> FlowScene \<Rightarrow> FlowScene outcome" where
  "delete_connection depth connection sc =
     (if connection \<in> set (scene_connections sc)
      then remove_from_nodes depth connection
             (sc\<lparr>scene_connections := remove1 connection (scene_connections sc)\<rparr>)
      else Done sc)"

text \<open>\<open>for conn in list(...): self.delete_connection(conn)\<close>, over the copied list.\<close>

fun delete_connections :: "nat \<Rightarrow> Connection list \<Rightarrow> FlowScene \<Rightarrow> FlowScene outcome" where
  "delete_connections depth [] sc = Done sc"
| "delete_connections depth (conn # rest) sc =
     (case delete_connection depth conn sc of
        Raised e sc' \<Rightarrow> Raised e sc'
      | Done sc' \<Rightarrow> delete_connections depth rest sc')"

text \<open>
  \<open>remove_node\<close>: delete the connections the node's state lists, then
  \<open>del self._nodes[node.id()]\<close>.
\<close>

definition remove_node :: "nat \<Rightarrow> QUuid \<Rightarrow> FlowScene \<Rightarrow> FlowScene outcome" where
  "remove_node depth uid sc =
     (case map_of (scene_nodes sc) uid of
        None \<Rightarrow> Raised KeyError sc
      | Some node \<Rightarrow>
          (case delete_connections depth (all_connections (node_state node)) sc of
             Raised e sc' \<Rightarrow> Raised e sc'
           | Done sc' \<Rightarrow>
               (case map_of (scene_nodes sc') uid of
                  None \<Rightarrow> Raised KeyError sc'
                | Some _ \<Rightarrow> Done (sc'\<lparr>scene_nodes := AList.delete uid (scene_nodes sc')\<rparr>))))"

fun remove_nodes :: "nat \<Rightarrow> QUuid list \<Rightarrow> FlowScene \<Rightarrow> FlowScene outcome" where
  "remove_nodes depth [] sc = Done sc"
| "remove_nodes depth (uid # rest) sc =
     (case remove_node depth uid sc of
        Raised e sc' \<Rightarrow> Raised e sc'
      | Done sc' \<Rightarrow> remove_nodes depth rest sc')"

text \<open>\<open>clear_scene\<close>: every connection of the copied list, then every node of the copied list.\<close>

definition clear_scene :: "nat \<Rightarrow> FlowScene \<Rightarrow> FlowScene outcome" where
  "clear_scene depth sc =
     (case delete_connections depth (scene_connections sc) sc of
        Raised e sc' \<Rightarrow> Raised e sc'
      | Done sc' \<Rightarrow> remove_nodes depth (map fst (scene_nodes sc')) sc')"

text \<open>
  An edit of the line edit of a source node (\<open>setText\<close> in \<open>main\<close>): \<open>on_text_edited\<close>
  and the propagation of the signal it emits.
\<close>

definition edit_source_text :: "nat \<Rightarrow> QUuid \<Rightarrow> real option \<Rightarrow> FlowScene \<Rightarrow> FlowScene outcome" where
  "edit_source_text depth uid parsed sc =
     (case map_of (scene_nodes sc) uid of
        Some node \<Rightarrow>
          (case node_data_model node of
             NumberSourceDataModel n \<Rightarrow>
               (case on_text_edited n parsed of
                  Raised e (n', emitted) \<Rightarrow> Raised e (set_model uid (NumberSourceDataModel n') sc)
                | Done (n', emitted) \<Rightarrow>
                    emit_data_updated depth uid emitted (set_model uid (NumberSourceDataModel n') sc))
           | _ \<Rightarrow> Raised AttributeError sc)
      | None \<Rightarrow> Raised KeyError sc)"

text \<open>
  The Complete connections of the scene's collection that end in input port \<open>i\<close> of node
  \<open>uid\<close>.
\<close>

definition complete_connections_into :: "QUuid \<Rightarrow> PortIndex \<Rightarrow> FlowScene \<Rightarrow> Connection list" where
  "complete_connections_into uid i sc =
     filter (\<lambda>c. is_complete c \<and> conn_in_node c = Some uid \<and> conn_in_index c = i)
       (scene_connections sc)"


subsection \<open>iterate\_over\_node\_data\_dependent\_order\<close>

text \<open>
  The traversal reads the node states through \<open>connections\<close>; its first argument is what
  that accessor answers for a port without connection.

  \<open>is_node_leaf\<close>: \<open>for i in range(model.n_ports(PortType.In))\<close>, answering \<open>False\<close> at
  the first port whose \<open>connections(...)\<close> \<open>is None\<close>.
\<close>

fun is_node_leaf_from ::
  "empty_port_answer \<Rightarrow> NodeState \<Rightarrow> PortIndex list \<Rightarrow> exception + bool" where
  "is_node_leaf_from answer st [] = Inr True"
| "is_node_leaf_from answer st (i # rest) =
     (case connections answer st In i of
        Inl e \<Rightarrow> Inl e
      | Inr cs \<Rightarrow> if cs = None then Inr False else is_node_leaf_from answer st rest)"

definition is_node_leaf :: "empty_port_answer \<Rightarrow> Node \<Rightarrow> exception + bool" where
  "is_node_leaf answer node =
     is_node_leaf_from answer (node_state node) [0..<n_ports (node_data_model node) In]"

text \<open>
  The first loop: every node that \<open>is_node_leaf\<close> accepts is handed to the visitor and
  appended to \<open>visited_nodes\<close>. The list of visited identifiers is also the sequence of
  the visitor's calls.
\<close>

fun leaf_pass ::
  "empty_port_answer \<Rightarrow> (QUuid \<times> Node) list \<Rightarrow> QUuid list \<Rightarrow> exception + QUuid list" where
  "leaf_pass answer [] visited = Inr visited"
| "leaf_pass answer ((uid, node) # rest) visited =
     (case is_node_leaf answer node of
        Inl e \<Rightarrow> Inl e
      | Inr leaf \<Rightarrow>
          if leaf then leaf_pass answer rest (visited @ [uid])
          else leaf_pass answer rest visited)"

text \<open>
  \<open>are_node_inputs_visited_before\<close>: \<open>False\<close> at the first connection whose source node is
  the last element of \<open>visited_nodes\<close>. Iterating over \<open>None\<close> is a \<open>TypeError\<close>.
\<close>

fun conns_visited_before :: "QUuid list \<Rightarrow> Connection list \<Rightarrow> bool" where
  "conns_visited_before visited [] = True"
| "conns_visited_before visited (conn # rest) =
     (if visited \<noteq> [] \<and> get_node conn Out = Some (last visited) then False
      else conns_visited_before visited rest)"

fun inputs_visited_from ::
  "empty_port_answer \<Rightarrow> NodeState \<Rightarrow> QUuid list \<Rightarrow> PortIndex list \<Rightarrow> exception + bool" where
  "inputs_visited_from answer st visited [] = Inr True"
| "inputs_visited_from answer st visited (i # rest) =
     (case connections answer st In i of
        Inl e \<Rightarrow> Inl e
      | Inr None \<Rightarrow> Inl TypeError
      | Inr (Some cs) \<Rightarrow>
          if conns_visited_before visited cs then inputs_visited_from answer st visited rest
          else Inr False)"

definition are_node_inputs_visited_before ::
  "empty_port_answer \<Rightarrow> Node \<Rightarrow> QUuid list \<Rightarrow> exception + bool" where
  "are_node_inputs_visited_before answer node visited =
     inputs_visited_from answer (node_state node) visited
       [0..<n_ports (node_data_model node) In]"

text \<open>
  One run of the \<open>for\<close> loop inside the \<open>while\<close>: a node is skipped when it is in
  \<open>visited_nodes\<close> and is not its last element.
\<close>

fun dependent_pass ::
  "empty_port_answer \<Rightarrow> (QUuid \<times> Node) list \<Rightarrow> QUuid list \<Rightarrow> exception + QUuid list" where
  "dependent_pass answer [] visited = Inr visited"
| "dependent_pass answer ((uid, node) # rest) visited =
     (if uid \<in> set visited \<and> uid \<noteq> last visited then dependent_pass answer rest visited
      else (case are_node_inputs_visited_before answer node visited of
              Inl e \<Rightarrow> Inl e
            | Inr ok \<Rightarrow>
                if ok then dependent_pass answer rest (visited @ [uid])
                else dependent_pass answer rest visited))"

text \<open>
  \<open>while len(self._nodes) != len(visited_nodes)\<close>: the loop may run forever, so not
  returning is the value \<open>None\<close>.
\<close>

partial_function (option) dependent_loop ::
  "empty_port_answer \<Rightarrow> (QUuid \<times> Node) list \<Rightarrow> QUuid list \<Rightarrow> (exception + QUuid list) option" where
  "dependent_loop answer nodes visited =
     (if length nodes \<noteq> length visited
      then (case dependent_pass answer nodes visited of
              Inl e \<Rightarrow> Some (Inl e)
            | Inr visited' \<Rightarrow> dependent_loop answer nodes visited')
      else Some (Inr visited))"

definition iterate_over_node_data_dependent_order ::
  "empty_port_answer \<Rightarrow> FlowScene \<Rightarrow> (exception + QUuid list) option" where
  "iterate_over_node_data_dependent_order answer sc =
     (case leaf_pass answer (scene_nodes sc) [] of
        Inl e \<Rightarrow> Some (Inl e)
      | Inr visited \<Rightarrow> dependent_loop answer (scene_nodes sc) visited)"



subsection \<open>Saving and loading\<close>

text \<open>
  The persisted document. A key that a dictionary may lack is an \<open>option\<close>; reading a
  missing key is a \<open>KeyError\<close>.
\<close>

record model_json =
  json_name :: "string option"
  json_number :: "real option"

record node_json =
  json_id :: QUuid
  json_model :: "model_json option"
  json_position :: "real \<times> real"

record converter_json =
  json_in :: NodeDataType
  json_out :: NodeDataType

record connection_json =
  json_in_id :: "QUuid option"
  json_in_index :: "PortIndex option"
  json_out_id :: "QUuid option"
  json_out_index :: "PortIndex option"
  json_converter :: "converter_json option"

record document =
  json_nodes :: "node_json list option"
  json_connections :: "connection_json list option"

text \<open>
  \<open>NodeDataModel.__getstate__\<close> with the \<open>save\<close> of the class: only the source node adds
  a field, \<open>number\<close>, when \<open>_number\<close> is set. The other classes inherit the empty
  \<open>restore\<close>.

  \<open>restore\<close> of the source node reads the number, sets \<open>_number\<close> and writes the number
  into its line edit as text, formatted with \<open>%g\<close>; the change of the text runs
  \<open>on_text_edited\<close>, which parses the text and sets \<open>_number\<close> again. What is left in
  \<open>_number\<close> is the float that the \<open>%g\<close> text of the saved number parses to, the number
  kept to six significant digits. Floats being modelled by reals, that function is not
  computed here: it is the argument \<open>reparse\<close> of \<open>restore\<close> and of everything that
  loads.
\<close>

fun model_save :: "NodeDataModel \<Rightarrow> real option" where
  "model_save (NumberSourceDataModel n) = n"
| "model_save _ = None"

definition getstate :: "NodeDataModel \<Rightarrow> model_json" where
  "getstate m = \<lparr>json_name = Some (model_name m), json_number = model_save m\<rparr>"

fun model_restore :: "(real \<Rightarrow> real) \<Rightarrow> NodeDataModel \<Rightarrow> model_json \<Rightarrow> NodeDataModel" where
  "model_restore reparse (NumberSourceDataModel n) state =
     (case json_number state of None \<Rightarrow> NumberSourceDataModel n
      | Some x \<Rightarrow> NumberSourceDataModel (Some (reparse x)))"
| "model_restore reparse m state = m"

text \<open>
  Modelled from the spec: \<open>Node.save\<close>, \<open>Node.restore\<close> and \<open>Connection.save\<close> are in
  node.py and connection.py, which are not part of the sources. A node is persisted as
  \<open>{id, model name, position, model.save()}\<close> and restored from it; a Complete connection
  as \<open>{in_id, in_index, out_id, out_index, converter?}\<close>, the converter entry holding the
  data types of the two ports when the connection has a converter; a connection that is
  not Complete saves to an empty document.
\<close>

definition node_save :: "QUuid \<times> Node \<Rightarrow> node_json" where
  "node_save entry =
     \<lparr>json_id = fst entry, json_model = Some (getstate (node_data_model (snd entry))),
      json_position = node_position (snd entry)\<rparr>"

definition node_restore :: "(real \<Rightarrow> real) \<Rightarrow> Node \<Rightarrow> node_json \<Rightarrow> model_json \<Rightarrow> Node" where
  "node_restore reparse node nj mj =
     node\<lparr>node_data_model := model_restore reparse (node_data_model node) mj,
          node_position := json_position nj\<rparr>"

definition port_type_json :: "FlowScene \<Rightarrow> QUuid \<Rightarrow> PortType \<Rightarrow> PortIndex \<Rightarrow> NodeDataType" where
  "port_type_json sc uid t i =
     (case map_of (scene_nodes sc) uid of
        None \<Rightarrow> \<lparr>dt_id = None, dt_name = None\<rparr>
      | Some node \<Rightarrow> port_data_type (node_data_model node) t i)"

definition connection_save :: "FlowScene \<Rightarrow> Connection \<Rightarrow> connection_json option" where
  "connection_save sc c =
     (case (conn_in_node c, conn_out_node c) of
        (Some node_in, Some node_out) \<Rightarrow>
          Some \<lparr>json_in_id = Some node_in, json_in_index = Some (conn_in_index c),
                json_out_id = Some node_out, json_out_index = Some (conn_out_index c),
                json_converter =
                  (case conn_converter c of
                     None \<Rightarrow> None
                   | Some _ \<Rightarrow>
                       Some \<lparr>json_in = port_type_json sc node_in In (conn_in_index c),
                             json_out = port_type_json sc node_out Out (conn_out_index c)\<rparr>)\<rparr>
      | _ \<Rightarrow> None)"

text \<open>\<open>save_to_memory\<close>: every node, and every connection whose document is not empty.\<close>

definition save_to_memory :: "FlowScene \<Rightarrow> document" where
  "save_to_memory sc =
     \<lparr>json_nodes = Some (map node_save (scene_nodes sc)),
      json_connections = Some (List.map_filter (connection_save sc) (scene_connections sc))\<rparr>"

text \<open>
  \<open>restore_node\<close>: \<open>node_json["model"]["name"]\<close>, the registry's \<open>create\<close>,
  \<open>ValueError\<close> when it answers nothing, then the node is built, restored and stored
  under its identifier.
\<close>

definition restore_node :: "(real \<Rightarrow> real) \<Rightarrow> node_json \<Rightarrow> FlowScene \<Rightarrow> FlowScene outcome" where
  "restore_node reparse nj sc =
     (case json_model nj of
        None \<Rightarrow> Raised KeyError sc
      | Some mj \<Rightarrow>
          (case json_name mj of
             None \<Rightarrow> Raised KeyError sc
           | Some name \<Rightarrow>
               (case create (scene_registry sc) name of
                  None \<Rightarrow> Raised ValueError sc
                | Some data_model \<Rightarrow>
                    Done (sc\<lparr>scene_nodes :=
                               AList.update (json_id nj)
                                 (node_restore reparse (Node_init data_model) nj mj)
                                 (scene_nodes sc)\<rparr>))))"

text \<open>
  \<open>get_converter\<close> inside \<open>restore_connection\<close>: when the document has a converter entry
  the function returns \<open>DefaultTypeConverter\<close>; when it has none, the statements after the
  test subscript \<open>converter\<close>, which is \<open>None\<close>, and raise \<open>TypeError\<close>. The lookup in the
  registry that follows is never reached.
\<close>

definition get_converter :: "converter_json option \<Rightarrow> exception + TypeConverter option" where
  "get_converter converter =
     (if converter \<noteq> None then Inr (Some DefaultTypeConverter) else Inl TypeError)"

text \<open>
  \<open>restore_connection\<close>: the four keys, the two nodes, the converter, and
  \<open>create_connection\<close>.
\<close>

definition restore_connection ::
  "nat \<Rightarrow> nat \<Rightarrow> connection_json \<Rightarrow> FlowScene \<Rightarrow> FlowScene outcome" where
  "restore_connection depth cid cj sc =
     (case (json_in_id cj, json_out_id cj, json_in_index cj, json_out_index cj) of
        (Some node_in_id, Some node_out_id, Some port_index_in, Some port_index_out) \<Rightarrow>
          (if map_of (scene_nodes sc) node_in_id = None \<or> map_of (scene_nodes sc) node_out_id = None
           then Raised KeyError sc
           else (case get_converter (json_converter cj) of
                   Inl e \<Rightarrow> Raised e sc
                 | Inr converter \<Rightarrow>
                     create_connection depth cid node_in_id port_index_in node_out_id port_index_out
                       converter sc))
      | _ \<Rightarrow> Raised KeyError sc)"

fun restore_nodes :: "(real \<Rightarrow> real) \<Rightarrow> node_json list \<Rightarrow> FlowScene \<Rightarrow> FlowScene outcome" where
  "restore_nodes reparse [] sc = Done sc"
| "restore_nodes reparse (nj # rest) sc =
     (case restore_node reparse nj sc of
        Raised e sc' \<Rightarrow> Raised e sc'
      | Done sc' \<Rightarrow> restore_nodes reparse rest sc')"

text \<open>The connections restored by one load get the identities \<open>cid\<close>, \<open>cid + 1\<close>, ...\<close>

fun restore_connections ::
  "nat \<Rightarrow> nat \<Rightarrow> connection_json list \<Rightarrow> FlowScene \<Rightarrow> FlowScene outcome" where
  "restore_connections depth cid [] sc = Done sc"
| "restore_connections depth cid (cj # rest) sc =
     (case restore_connection depth cid cj sc of
        Raised e sc' \<Rightarrow> Raised e sc'
      | Done sc' \<Rightarrow> restore_connections depth (Suc cid) rest sc')"

text \<open>\<open>load_from_memory\<close>, on the parsed document.\<close>

definition load_from_memory ::
  "(real \<Rightarrow> real) \<Rightarrow> nat \<Rightarrow> nat \<Rightarrow> document \<Rightarrow> FlowScene \<Rightarrow> FlowScene outcome" where
  "load_from_memory reparse depth cid doc sc =
     (case json_nodes doc of
        None \<Rightarrow> Raised KeyError sc
      | Some nodes \<Rightarrow>
          (case restore_nodes reparse nodes sc of
             Raised e sc' \<Rightarrow> Raised e sc'
           | Done sc' \<Rightarrow>
               (case json_connections doc of
                  None \<Rightarrow> Raised KeyError sc'
                | Some conns \<Rightarrow> restore_connections depth cid conns sc')))"

text \<open>
  \<open>load\<close>: what the file name leads to is no file, a file that is not JSON
  (\<open>json.loads\<close> raises a \<open>ValueError\<close>), or a JSON document. The scene is cleared before
  the file is looked at.
\<close>

datatype flow_file = NoFile | NotJson | Json document

definition load ::
  "(real \<Rightarrow> real) \<Rightarrow> nat \<Rightarrow> nat \<Rightarrow> flow_file \<Rightarrow> FlowScene \<Rightarrow> FlowScene outcome" where
  "load reparse depth cid file sc =
     (case clear_scene depth sc of
        Raised e sc' \<Rightarrow> Raised e sc'
      | Done sc' \<Rightarrow>
          (case file of
             NoFile \<Rightarrow> Done sc'
           | NotJson \<Rightarrow> Raised ValueError sc'
           | Json doc \<Rightarrow> load_from_memory reparse depth cid doc sc'))"


subsection \<open>What propagation leaves alone\<close>

text \<open>
  The topology of a scene: its connection collection, the identifiers of its nodes in
  order with their port states and positions, and its registry; everything but the states
  of the node data models.
\<close>

definition topology ::
  "FlowScene \<Rightarrow> Connection list \<times> (QUuid \<times> NodeState \<times> real \<times> real) list \<times> DataModelRegistry" where
  "topology sc =
     (scene_connections sc,
      map (\<lambda>entry. (fst entry, node_state (snd entry), node_position (snd entry))) (scene_nodes sc),
      scene_registry sc)"


section \<open>The calculator example\<close>

text \<open>
  The registry of \<open>main\<close>: the registered models (without \<open>ModuloModel\<close>) and the two
  converter registrations.
\<close>

definition main_registry :: DataModelRegistry where
  "main_registry =
     \<lparr>registered_models =
        [(''Addition'', AdditionModel), (''Division'', DivisionModel),
         (''Multiplication'', MultiplicationModel),
         (''NumberSource'', NumberSourceDataModel_init),
         (''Subtraction'', SubtractionModel), (''NumberDisplay'', NumberDisplay_init)],
      type_converters = main_type_converters\<rparr>"

text \<open>
  Two source nodes 1 and 2 showing \<open>a\<close> and \<open>b\<close>, and an operation node 3, not yet wired.
\<close>

definition two_sources_and :: "nat \<Rightarrow> NodeDataModel \<Rightarrow> real \<Rightarrow> real \<Rightarrow> FlowScene outcome" where
  "two_sources_and depth operation a b =
     and_then (edit_source_text depth 1 (Some a)
                 (create_node 1 NumberSourceDataModel_init (FlowScene_init main_registry))) (\<lambda>sc1.
     and_then (edit_source_text depth 2 (Some b) (create_node 2 NumberSourceDataModel_init sc1)) (\<lambda>sc2.
     Done (create_node 3 operation sc2)))"

text \<open>
  The graph of the properties: source 1 wired to input 0 and source 2 to input 1 of the
  operation node, as \<open>main\<close> does it, with \<open>converter=None\<close>.
\<close>

definition wired_operation :: "nat \<Rightarrow> NodeDataModel \<Rightarrow> real \<Rightarrow> real \<Rightarrow> FlowScene outcome" where
  "wired_operation depth operation a b =
     and_then (two_sources_and depth operation a b) (\<lambda>sc.
     and_then (create_connection depth 10 3 0 1 0 None sc) (\<lambda>sc'.
     create_connection depth 11 3 1 2 0 None sc'))"

text \<open>What an observer reads off node \<open>uid\<close>: \<open>out_data(0)\<close> and \<open>validation_state()\<close>.\<close>

definition observe :: "QUuid \<Rightarrow> FlowScene \<Rightarrow> (NodeData option \<times> NodeValidationState) option" where
  "observe uid sc =
     map_option (\<lambda>node. (out_data (node_data_model node) 0,
                         model_validation_state (node_data_model node)))
       (map_of (scene_nodes sc) uid)"

text \<open>
  The chain Source \<open>\<rightarrow>\<close> Addition \<open>\<rightarrow>\<close> Display, the nodes created in the order Display (1),
  Addition (2), Source (3): the source feeds both inputs of the addition.
\<close>

definition display_first_chain :: "nat \<Rightarrow> FlowScene outcome" where
  "display_first_chain depth =
     and_then (Done (create_node 3 NumberSourceDataModel_init
                 (create_node 2 AdditionModel
                    (create_node 1 NumberDisplay_init (FlowScene_init main_registry))))) (\<lambda>sc.
     and_then (create_connection depth 10 2 0 3 0 None sc) (\<lambda>sc.
     and_then (create_connection depth 11 2 1 3 0 None sc) (\<lambda>sc.
     create_connection depth 12 1 0 2 0 None sc)))"






text \<open>
  Both sources wired to the same input, input 0 of the operation node, one after the other.
\<close>

definition single_wired :: "nat \<Rightarrow> FlowScene" where
  "single_wired depth =
     state_of (and_then (two_sources_and depth AdditionModel 1 2)
                 (create_connection depth 10 3 0 1 0 None))"

definition double_wired :: "nat \<Rightarrow> FlowScene outcome" where
  "double_wired depth = create_connection depth 11 3 0 2 0 None (single_wired depth)"



text \<open>
  Documents: a node entry naming a model that \<open>main\<close> does not register, a well-formed
  entry of a source node, and the document holding only the former.
\<close>

definition unknown_node_json :: node_json where
  "unknown_node_json =
     \<lparr>json_id = 7, json_model = Some \<lparr>json_name = Some ''Logarithm'', json_number = None\<rparr>,
      json_position = (0, 0)\<rparr>"

definition source_node_json :: node_json where
  "source_node_json =
     \<lparr>json_id = 8, json_model = Some \<lparr>json_name = Some ''NumberSource'', json_number = Some 4\<rparr>,
      json_position = (0, 0)\<rparr>"

definition unknown_model_document :: document where
  "unknown_model_document =
     \<lparr>json_nodes = Some [unknown_node_json], json_connections = Some []\<rparr>"

text \<open>
  A document with two well-formed nodes, a connection entry that carries a converter, and
  a connection entry without its \<open>in_id\<close>.
\<close>

definition bad_connection_document :: document where
  "bad_connection_document =
     \<lparr>json_nodes =
        Some [source_node_json,
              \<lparr>json_id = 9,
                json_model = Some \<lparr>json_name = Some ''NumberDisplay'', json_number = None\<rparr>,
                json_position = (0, 0)\<rparr>],
      json_connections =
        Some [\<lparr>json_in_id = Some 9, json_in_index = Some 0, json_out_id = Some 8,
                json_out_index = Some 0,
                json_converter =
                  Some \<lparr>json_in = DecimalData_data_type, json_out = DecimalData_data_type\<rparr>\<rparr>,
              \<lparr>json_in_id = None, json_in_index = Some 0, json_out_id = Some 8,
                json_out_index = Some 0, json_converter = None\<rparr>]\<rparr>"

text \<open>The wired Addition graph of the first property, as a scene.\<close>

definition addition_graph :: FlowScene where
  "addition_graph = state_of (wired_operation 1000 AdditionModel 1 2)"


section \<open>Properties of the data layer\<close>

text \<open>
  C10. The guard of \<open>NodeData.__init_subclass__\<close> does not fire for a subclass that omits
  \<open>data_type\<close>: the attribute found is the base class's \<open>NodeDataType(None, None)\<close>,
  which is an object and not \<open>None\<close>. Whenever no class body on the chain assigns
  \<open>data_type\<close>, the subclass is accepted and the type it inherits has id \<open>None\<close>.
\<close>

theorem init_subclass_guard_never_fires:
  assumes "\<forall>body \<in> set cls. body = None"
  shows "init_subclass cls = Inr ()
         \<and> (\<exists>t. cls_data_type cls = TypeObject t \<and> dt_id t = None)"
  using assms
  by (induction cls) (simp_all add: init_subclass_def NodeData_data_type_def)

theorem init_subclass_guard_never_fires_witness:
  "init_subclass [None, None] = Inr ()
   \<and> (\<exists>t. cls_data_type [None, None] = TypeObject t \<and> dt_id t = None)"
  using init_subclass_guard_never_fires [of "[None, None]"] by simp

section \<open>Properties of the calculator models\<close>

lemmas model_defs = set_in_data_def check_inputs_def number_ok_def compute_lock_def
  number_binop_def display_set_in_data_def DecimalData_data_type_def IntegerData_data_type_def
  AdditionModel_def SubtractionModel_def MultiplicationModel_def DivisionModel_def
  NumberSourceDataModel_init_def NumberDisplay_init_def MathOperationDataModel_init_def
  NumberDisplayModel_init_def

lemmas scene_defs = FlowScene_init_def create_node_def Node_init_def NodeState_init_def
  make_ports_def attached_def attach_def set_connection_def erase_connection_def
  all_connections_def remove_connection_def set_model_def set_state_def deliveries_def
  converted_def deliver_def node_set_connection_def send_connection_created_to_nodes_def
  create_connection_def from_nodes_def node_erase_connection_def detach_def
  remove_from_nodes_def delete_connection_def remove_node_def clear_scene_def
  edit_source_text_def observe_def Let_def

text \<open>
  The type id of a \<open>DecimalData\<close> is \<open>decimal\<close>; \<open>_check_inputs\<close> looks for \<open>Decimal\<close>,
  which is the type's display name. No decimal value passes the test.
\<close>

lemma number_ok_DecimalData: "number_ok (Some (DecimalData x)) = False"
  by (simp add: number_ok_def DecimalData_data_type_def)

lemma number_ok_IntegerData: "number_ok (Some (IntegerData n)) = True"
  by (simp add: number_ok_def IntegerData_data_type_def)

text \<open>
  Whatever the operation and the state before: when a decimal value arrives at input 0 or 1,
  the model ends without a result and in state \<open>warning\<close>, and announces its output.
\<close>

lemma set_in_data_DecimalData:
  assumes "i = 0 \<or> i = 1"
  shows "\<exists>m'. set_in_data op m (Some (DecimalData x)) i = Done (m', [0])
              \<and> result m' = None \<and> validation_state m' = warning"
  using assms by (auto simp: set_in_data_def check_inputs_def number_ok_DecimalData Let_def)

text \<open>
  C1. Source 1.0 into Addition input 0 and source 2.0 into Addition input 1: at every
  recursion limit of at least two, both connections get created, and the Addition node then
  has no output and is in state \<open>warning\<close>. (The property asks for \<open>DecimalData(3.0)\<close> and
  \<open>valid\<close>.)
\<close>

theorem addition_of_two_sources_has_no_output:
  "\<exists>sc. wired_operation (Suc (Suc depth)) AdditionModel 1 2 = Done sc
        \<and> observe 3 sc = Some (None, warning)"
  by (simp add: wired_operation_def two_sources_and_def model_defs scene_defs upt_rec)

text \<open>
  C8. Source 5.0 into Division input 0 and source 0.0 into Division input 1: nothing is
  raised and the output is empty, but the state is \<open>warning\<close>, as for any two decimal
  inputs; \<open>compute\<close>, which would set \<open>error\<close>, is not reached. (The property asks for
  \<open>error\<close>.)
\<close>

theorem division_by_zero_source_is_warning:
  "\<exists>sc. wired_operation (Suc (Suc depth)) DivisionModel 5 0 = Done sc
        \<and> observe 3 sc = Some (None, warning)"
  by (simp add: wired_operation_def two_sources_and_def model_defs scene_defs upt_rec)

text \<open>
  Had the two inputs passed the test, \<open>compute\<close> of the Division model would report the
  zero divisor as the property says.
\<close>

lemma compute_Division_by_zero:
  "compute Division (m\<lparr>number1 := Some (DecimalData a), number2 := Some (DecimalData 0)\<rparr>)
   = Done (m\<lparr>number1 := Some (DecimalData a), number2 := Some (DecimalData 0),
              validation_state := error, validation_message := ''Division by zero error'',
              result := None\<rparr>)"
  by simp

text \<open>
  C7. The converter that \<open>main\<close> registers from Integer to Decimal is
  \<open>decimal_to_integer_converter\<close>, and it raises \<open>TypeError\<close> on every \<open>IntegerData\<close>:
  \<open>data.number\<close> is a bound method there, which \<open>int\<close> rejects. The function
  \<open>integer_to_decimal_converter\<close>, which is not registered, raises the same way in
  \<open>float\<close>. (The property asks for a Decimal value equal to the integer.)
\<close>

theorem registered_integer_to_decimal_converter_raises:
  "get_type_converter main_type_converters IntegerData_data_type DecimalData_data_type
     = Some Ref_decimal_to_integer_converter
   \<and> call_converter Ref_decimal_to_integer_converter (Some (IntegerData n)) = Inl TypeError
   \<and> integer_to_decimal_converter (Some (IntegerData n)) = Inl TypeError"
  by (simp add: get_type_converter_def main_type_converters_def register_type_converter_def
      DecimalData_data_type_def IntegerData_data_type_def decimal_to_integer_converter_def
      integer_to_decimal_converter_def)


section \<open>Properties of the dependency-ordered traversal\<close>




text \<open>
  C4. On the chain Source \<open>\<rightarrow>\<close> Addition \<open>\<rightarrow>\<close> Display created in the order Display,
  Addition, Source, the traversal returns after visiting Display, then Addition, then
  Source: each node once, in the order of the node collection, the consumers before the
  node that feeds them. Every input port of the chain is connected, so this holds
  whatever \<open>connections\<close> answers for a port without connection.
\<close>

theorem traversal_visits_display_before_source:
  "iterate_over_node_data_dependent_order answer (state_of (display_first_chain 1000))
   = Some (Inr [1, 2, 3])"
proof -
  have "leaf_pass AnswersNone (scene_nodes (state_of (display_first_chain 1000))) [] = Inr [1, 2, 3]"
    and "leaf_pass AnswersEmpty (scene_nodes (state_of (display_first_chain 1000))) [] = Inr [1, 2, 3]"
    by code_simp+
  then have leaves:
    "leaf_pass answer (scene_nodes (state_of (display_first_chain 1000))) [] = Inr [1, 2, 3]"
    by (cases answer) simp_all
  have "length (scene_nodes (state_of (display_first_chain 1000))) = 3"
    by code_simp
  then show ?thesis
    by (simp add: iterate_over_node_data_dependent_order_def leaves dependent_loop.simps)
qed







section \<open>Properties of the scene\<close>

text \<open>
  Propagation changes the states of node data models and nothing else: the connection
  collection, the node identifiers, the port states, the positions and the registry stay as
  they are, whether the propagation returns or raises.
\<close>

lemma map_entry_keeps:
  "(\<And>n. g (f n) = g n) \<Longrightarrow>
   map (\<lambda>entry. (fst entry, g (snd entry))) (AList.map_entry k f xs)
   = map (\<lambda>entry. (fst entry, g (snd entry))) xs"
  by (induction xs) auto

lemma topology_set_model: "topology (set_model uid m sc) = topology sc"
  using map_entry_keeps [of "\<lambda>n. (node_state n, node_position n)" "\<lambda>n. n\<lparr>node_data_model := m\<rparr>" uid "scene_nodes sc"]
  by (simp add: topology_def set_model_def)

lemma topology_deliver:
  "topology (fst (state_of (deliver uid node_data i sc))) = topology sc"
  by (auto simp: deliver_def topology_set_model split: option.splits outcome.splits prod.splits)

lemma topology_cascade:
  "topology (state_of (on_data_updated depth uid index sc)) = topology sc"
  "topology (state_of (propagate_all depth node_data cs sc)) = topology sc"
  "topology (state_of (propagate_data depth uid node_data in_port_index sc)) = topology sc"
  "topology (state_of (emit_data_updated depth uid ps sc)) = topology sc"
proof (induction depth uid index sc and depth node_data cs sc and depth uid node_data in_port_index sc
       and depth uid ps sc
       rule: on_data_updated_propagate_all_propagate_data_emit_data_updated.induct)
  case (1 uid index sc)
  then show ?case by simp
next
  case (2 depth uid index sc)
  show ?case
  proof (cases "deliveries sc uid index")
    case (Inl e)
    then show ?thesis by simp
  next
    case (Inr r)
    obtain node_data cs where r: "r = (node_data, cs)" by (cases r)
    show ?thesis using "2.IH" [OF Inr r [symmetric]] by (simp add: Inr r)
  qed
next
  case (3 depth node_data sc)
  then show ?case by simp
next
  case (4 depth node_data c cs sc)
  show ?case
  proof (cases "conn_in_node c")
    case None
    then show ?thesis using "4.IH"(1) by simp
  next
    case (Some node_in)
    show ?thesis
    proof (cases "converted c node_data")
      case (Inl e)
      then show ?thesis by (simp add: Some)
    next
      case (Inr v)
      note step = "4.IH"(2) [OF Some Inr]
      show ?thesis
      proof (cases "propagate_data depth node_in v (conn_in_index c) sc")
        case (Done sc')
        from step Done have "topology sc' = topology sc"
          by (simp del: propagate_data.simps)
        moreover note "4.IH"(3) [OF Some Inr Done]
        ultimately show ?thesis by (simp add: Some Inr Done del: propagate_data.simps)
      next
        case (Raised e sc')
        with step show ?thesis by (simp add: Some Inr del: propagate_data.simps)
      qed
    qed
  qed
next
  case (5 depth uid node_data in_port_index sc)
  show ?case
  proof (cases "deliver uid node_data in_port_index sc")
    case (Done r)
    obtain sc' emitted where r: "r = (sc', emitted)" by (cases r)
    have "topology sc' = topology sc"
      using topology_deliver [of uid node_data in_port_index sc] by (simp add: Done r)
    then show ?thesis using "5.IH" [OF Done r [symmetric]] by (simp add: Done r)
  next
    case (Raised e r)
    obtain sc' emitted where r: "r = (sc', emitted)" by (cases r)
    have "topology sc' = topology sc"
      using topology_deliver [of uid node_data in_port_index sc] by (simp add: Raised r)
    then show ?thesis by (simp add: Raised r)
  qed
next
  case (6 depth uid sc)
  then show ?case by simp
next
  case (7 depth uid index rest sc)
  show ?case
  proof (cases "on_data_updated depth uid index sc")
    case (Done sc')
    from "7.IH"(1) Done have "topology sc' = topology sc" by simp
    moreover note "7.IH"(2) [OF Done]
    ultimately show ?thesis by (simp add: Done)
  next
    case (Raised e sc')
    with "7.IH"(1) show ?thesis by simp
  qed
qed

lemma topology_connections: "topology a = topology b \<Longrightarrow> scene_connections a = scene_connections b"
  by (simp add: topology_def)

lemma topology_registry: "topology a = topology b \<Longrightarrow> scene_registry a = scene_registry b"
  by (simp add: topology_def)

lemma topology_keys: "topology a = topology b \<Longrightarrow> map fst (scene_nodes a) = map fst (scene_nodes b)"
proof -
  assume "topology a = topology b"
  then have "map fst (map (\<lambda>entry. (fst entry, node_state (snd entry), node_position (snd entry))) (scene_nodes a))
           = map fst (map (\<lambda>entry. (fst entry, node_state (snd entry), node_position (snd entry))) (scene_nodes b))"
    by (simp add: topology_def)
  then show ?thesis by (simp add: comp_def)
qed


lemma node_set_connection_Done:
  "node_set_connection uid t i c sc = Done sc' \<Longrightarrow> scene_connections sc' = scene_connections sc"
  by (auto simp: node_set_connection_def set_state_def split: option.splits sum.splits)

text \<open>
  What \<open>Port\<close> reports for an input port: policy \<open>one\<close>, and \<open>can_connect\<close> exactly while
  the port is empty. \<open>create_connection\<close> does not ask.
\<close>

lemma input_port_policy:
  "port_type p = In \<Longrightarrow> connection_policy p = Inr one \<and> can_connect p = Inr (port_connections p = [])"
  by (simp add: connection_policy_def can_connect_def)

text \<open>
  C6, as the code has it. An input port's connection policy is \<open>one\<close>, but
  \<open>create_connection\<close> displaces nothing: when it returns, the scene's connection collection
  is the one from before with the new connection appended, so the Complete connections of
  the collection that end in the targeted input port are those from before followed by the
  new one.
\<close>

theorem create_connection_displaces_nothing:
  assumes "create_connection depth cid node_in i node_out j converter sc = Done sc'"
  shows "scene_connections sc'
           = scene_connections sc @ [from_nodes cid node_in i node_out j converter]
         \<and> complete_connections_into node_in i sc'
             = complete_connections_into node_in i sc
               @ [from_nodes cid node_in i node_out j converter]
         \<and> (\<forall>p. port_type p = In \<longrightarrow> connection_policy p = Inr one)"
proof -
  define new where "new = from_nodes cid node_in i node_out j converter"
  from assms obtain sc1 where s1: "node_set_connection node_in In i new sc = Done sc1"
    by (cases "node_set_connection node_in In i new sc")
       (auto simp: create_connection_def Let_def new_def)
  with assms obtain sc2 where s2: "node_set_connection node_out Out j new sc1 = Done sc2"
    by (cases "node_set_connection node_out Out j new sc1")
       (auto simp: create_connection_def Let_def new_def)
  with assms s1 obtain sc3 where s3: "on_data_updated depth node_out j sc2 = Done sc3"
    by (cases "on_data_updated depth node_out j sc2")
       (auto simp: create_connection_def Let_def new_def)
  from assms s1 s2 s3 have final:
    "sc' = sc3\<lparr>scene_connections := scene_connections sc3 @ [new]\<rparr>"
    by (auto simp: create_connection_def Let_def new_def send_connection_created_to_nodes_def
        split: if_splits)
  have t3: "topology sc3 = topology sc2"
    using topology_cascade(1) [of depth node_out j sc2] by (simp add: s3)
  have conns: "scene_connections sc3 = scene_connections sc"
    using topology_connections [OF t3] node_set_connection_Done [OF s1]
      node_set_connection_Done [OF s2] by simp
  have appended: "scene_connections sc' = scene_connections sc @ [new]"
    by (simp add: final conns)
  have "is_complete new \<and> conn_in_node new = Some node_in \<and> conn_in_index new = i"
    by (simp add: new_def from_nodes_def is_complete_def)
  then have "complete_connections_into node_in i sc' = complete_connections_into node_in i sc @ [new]"
    by (simp add: complete_connections_into_def appended)
  with appended show ?thesis by (simp add: new_def connection_policy_def)
qed

lemma returned_Done: "returned x \<Longrightarrow> x = Done (state_of x)"
  by (cases x) simp_all

theorem create_connection_displaces_nothing_witness:
  "scene_connections (state_of (double_wired 1000))
     = scene_connections (single_wired 1000) @ [from_nodes 11 3 0 2 0 None]
   \<and> complete_connections_into 3 0 (state_of (double_wired 1000))
       = complete_connections_into 3 0 (single_wired 1000) @ [from_nodes 11 3 0 2 0 None]
   \<and> connection_policy \<lparr>port_type = In, port_index = 0, port_connections = []\<rparr> = Inr one
   \<and> map conn_id (complete_connections_into 3 0 (single_wired 1000)) = [10]"
proof -
  have "returned (double_wired 1000)" by code_simp
  then have "create_connection 1000 11 3 0 2 0 None (single_wired 1000)
             = Done (state_of (double_wired 1000))"
    using returned_Done [of "double_wired 1000"] by (simp add: double_wired_def)
  from create_connection_displaces_nothing [OF this]
  have "scene_connections (state_of (double_wired 1000))
          = scene_connections (single_wired 1000) @ [from_nodes 11 3 0 2 0 None]"
    and "complete_connections_into 3 0 (state_of (double_wired 1000))
          = complete_connections_into 3 0 (single_wired 1000) @ [from_nodes 11 3 0 2 0 None]"
    and "connection_policy \<lparr>port_type = In, port_index = 0, port_connections = []\<rparr> = Inr one"
    by simp_all
  moreover have "map conn_id (complete_connections_into 3 0 (single_wired 1000)) = [10]"
    by code_simp
  ultimately show ?thesis by simp
qed

text \<open>
  C6, as stated, fails: after a second \<open>create_connection\<close> to input 0 of node 3 has
  returned, the scene's collection holds two Complete connections that end in that input
  port; the first one has not been removed.
\<close>

theorem second_connection_keeps_first:
  "returned (double_wired 1000)
   \<and> map conn_id (scene_connections (state_of (double_wired 1000))) = [10, 11]
   \<and> map conn_id (complete_connections_into 3 0 (state_of (double_wired 1000))) = [10, 11]"
  by code_simp







section \<open>Properties of clearing, saving and loading\<close>

text \<open>
  Deleting a connection takes it out of the collection and leaves the node identifiers and
  the registry alone; so \<open>clear_scene\<close>, when it returns, leaves a scene without nodes and
  without connections.
\<close>

lemma keys_map_entry: "map fst (AList.map_entry k f xs) = map fst xs"
  by (induction xs) auto

lemma detach_keeps:
  "scene_connections (detach c sc) = scene_connections sc"
  "map fst (scene_nodes (detach c sc)) = map fst (scene_nodes sc)"
  "scene_registry (detach c sc) = scene_registry sc"
  by (simp_all add: detach_def node_erase_connection_def Let_def keys_map_entry split: option.splits)

lemma remove_from_nodes_keeps:
  "scene_connections (state_of (remove_from_nodes depth c sc)) = scene_connections sc"
  "map fst (scene_nodes (state_of (remove_from_nodes depth c sc))) = map fst (scene_nodes sc)"
  "scene_registry (state_of (remove_from_nodes depth c sc)) = scene_registry sc"
proof -
  have "topology (state_of (remove_from_nodes depth c sc)) = topology (detach c sc)"
    using topology_cascade(3) [of depth _ None "conn_in_index c" "detach c sc"]
    by (simp add: remove_from_nodes_def del: propagate_data.simps split: option.splits)
  from topology_connections [OF this] topology_keys [OF this] topology_registry [OF this]
  show "scene_connections (state_of (remove_from_nodes depth c sc)) = scene_connections sc"
    "map fst (scene_nodes (state_of (remove_from_nodes depth c sc))) = map fst (scene_nodes sc)"
    "scene_registry (state_of (remove_from_nodes depth c sc)) = scene_registry sc"
    by (simp_all add: detach_keeps)
qed

lemma delete_connection_effect:
  "scene_connections (state_of (delete_connection depth c sc)) = remove1 c (scene_connections sc)"
  "map fst (scene_nodes (state_of (delete_connection depth c sc))) = map fst (scene_nodes sc)"
  "scene_registry (state_of (delete_connection depth c sc)) = scene_registry sc"
  by (simp_all add: delete_connection_def remove_from_nodes_keeps remove1_idem)

lemma delete_connections_effect:
  assumes "delete_connections depth cs sc = Done sc'"
  shows "(mset (scene_connections sc) \<subseteq># mset cs \<longrightarrow> scene_connections sc' = [])
         \<and> map fst (scene_nodes sc') = map fst (scene_nodes sc)
         \<and> scene_registry sc' = scene_registry sc"
  using assms
proof (induction cs arbitrary: sc)
  case Nil
  then show ?case by simp
next
  case (Cons c cs)
  from Cons.prems obtain s1 where s1: "delete_connection depth c sc = Done s1"
    and rest: "delete_connections depth cs s1 = Done sc'"
    by (auto split: outcome.splits)
  have conns: "scene_connections s1 = remove1 c (scene_connections sc)"
    and keys: "map fst (scene_nodes s1) = map fst (scene_nodes sc)"
    and registry: "scene_registry s1 = scene_registry sc"
    using delete_connection_effect [of depth c sc] by (simp_all add: s1)
  have "mset (scene_connections sc) \<subseteq># mset (c # cs)
        \<Longrightarrow> mset (scene_connections s1) \<subseteq># mset cs"
    by (simp add: conns subset_eq_diff_conv)
  with Cons.IH [OF rest] keys registry show ?case by simp
qed

lemma delete_connections_of_none:
  "scene_connections sc = [] \<Longrightarrow> delete_connections depth cs sc = Done sc"
  by (induction cs) (simp_all add: delete_connection_def)

lemma remove_node_of_unwired:
  assumes "scene_connections sc = []" and "remove_node depth uid sc = Done sc'"
  shows "sc' = sc\<lparr>scene_nodes := AList.delete uid (scene_nodes sc)\<rparr>"
  using assms
  by (auto simp: remove_node_def delete_connections_of_none split: option.splits)

lemma remove_nodes_of_unwired:
  assumes "scene_connections sc = []" and "remove_nodes depth uids sc = Done sc'"
  shows "scene_connections sc' = [] \<and> scene_registry sc' = scene_registry sc
         \<and> set (map fst (scene_nodes sc')) = set (map fst (scene_nodes sc)) - set uids"
  using assms
proof (induction uids arbitrary: sc)
  case Nil
  then show ?case by simp
next
  case (Cons uid uids)
  from Cons.prems(2) obtain s1 where s1: "remove_node depth uid sc = Done s1"
    and rest: "remove_nodes depth uids s1 = Done sc'"
    by (auto split: outcome.splits)
  have s1_eq: "s1 = sc\<lparr>scene_nodes := AList.delete uid (scene_nodes sc)\<rparr>"
    using remove_node_of_unwired [OF Cons.prems(1) s1] .
  then have "scene_connections s1 = []" using Cons.prems(1) by simp
  from Cons.IH [OF this rest] show ?case
    by (auto simp: s1_eq delete_keys)
qed

lemma clear_scene_empties:
  assumes "clear_scene depth sc = Done sc0"
  shows "scene_nodes sc0 = []" and "scene_connections sc0 = []"
    and "scene_registry sc0 = scene_registry sc"
proof -
  from assms obtain s1 where s1: "delete_connections depth (scene_connections sc) sc = Done s1"
    and rest: "remove_nodes depth (map fst (scene_nodes s1)) s1 = Done sc0"
    by (auto simp: clear_scene_def split: outcome.splits)
  have unwired: "scene_connections s1 = []"
    using delete_connections_effect [OF s1] by simp
  from remove_nodes_of_unwired [OF unwired rest]
  show "scene_nodes sc0 = []" and "scene_connections sc0 = []"
    and "scene_registry sc0 = scene_registry sc"
    using delete_connections_effect [OF s1] by simp_all
qed

lemma restore_node_Raised: "restore_node reparse nj sc = Raised e sc' \<Longrightarrow> sc' = sc"
  by (auto simp: restore_node_def split: option.splits)

lemma keys_update: "fst ` set (AList.update k v xs) = insert k (fst ` set xs)"
proof -
  have "set (map fst (AList.update k v xs)) = insert k (set (map fst xs))"
    by (auto simp: update_keys)
  then show ?thesis by (simp only: set_map)
qed

lemma restore_node_Done:
  assumes "restore_node reparse nj sc = Done sc'"
  shows "scene_connections sc' = scene_connections sc \<and> scene_registry sc' = scene_registry sc
         \<and> fst ` set (scene_nodes sc') = insert (json_id nj) (fst ` set (scene_nodes sc))"
proof -
  from assms obtain mj data_model where
    "sc' = sc\<lparr>scene_nodes :=
                 AList.update (json_id nj) (node_restore reparse (Node_init data_model) nj mj)
                   (scene_nodes sc)\<rparr>"
    by (auto simp: restore_node_def split: option.splits)
  then show ?thesis by (simp add: keys_update)
qed

lemma restore_nodes_Done:
  assumes "restore_nodes reparse njs sc = Done sc'"
  shows "scene_connections sc' = scene_connections sc \<and> scene_registry sc' = scene_registry sc
         \<and> fst ` set (scene_nodes sc') = json_id ` set njs \<union> fst ` set (scene_nodes sc)"
  using assms
proof (induction njs arbitrary: sc)
  case Nil
  then show ?case by simp
next
  case (Cons nj njs)
  from Cons.prems obtain s1 where s1: "restore_node reparse nj sc = Done s1"
    and rest: "restore_nodes reparse njs s1 = Done sc'"
    by (auto split: outcome.splits)
  from restore_node_Done [OF s1] Cons.IH [OF rest] show ?case by auto
qed

lemma restore_nodes_append:
  "restore_nodes reparse (xs @ ys) sc =
     (case restore_nodes reparse xs sc of
        Raised e sc' \<Rightarrow> Raised e sc'
      | Done sc' \<Rightarrow> restore_nodes reparse ys sc')"
  by (induction xs arbitrary: sc) (auto split: outcome.splits)

text \<open>
  C3, as the code has it. \<open>load\<close> clears the scene before it looks at the file, and
  nothing is rolled back. When the clearing returns, it leaves the empty scene, and
  loading any document goes on from there: the scene after a failed load is the one that
  restoring the same document into an empty scene with the same registry leaves behind,
  the part of the document restored before the failing entry and nothing of the prior
  graph. For a file that is not JSON and for a document without its \<open>nodes\<close> that is the
  empty scene; for a document that names an unregistered model after some entries that
  restore, it has no connection and exactly the nodes of the entries before the failing
  one.
\<close>

theorem failed_load_leaves_cleared_scene:
  assumes cleared: "clear_scene depth sc = Done sc0"
    and restored: "restore_nodes reparse good sc0 = Done sc1"
    and unknown: "json_model bad = Some mj" "json_name mj = Some name"
      "create (scene_registry sc) name = None"
  shows "sc0 = FlowScene_init (scene_registry sc)
         \<and> load reparse depth cid (Json doc) sc
             = load_from_memory reparse depth cid doc (FlowScene_init (scene_registry sc))
         \<and> load reparse depth cid
               (Json \<lparr>json_nodes = Some (good @ bad # rest), json_connections = conns\<rparr>) sc
             = Raised ValueError sc1
         \<and> load reparse depth cid NotJson sc = Raised ValueError sc0
         \<and> load reparse depth cid (Json \<lparr>json_nodes = None, json_connections = conns\<rparr>) sc
             = Raised KeyError sc0
         \<and> scene_nodes sc0 = [] \<and> scene_connections sc0 = []
         \<and> scene_connections sc1 = [] \<and> fst ` set (scene_nodes sc1) = json_id ` set good"
proof -
  note empty = clear_scene_empties [OF cleared]
  note kept = restore_nodes_Done [OF restored]
  have init: "sc0 = FlowScene_init (scene_registry sc)"
    using empty by (cases sc0) (simp add: FlowScene_init_def)
  have anything: "load reparse depth cid (Json doc) sc
             = load_from_memory reparse depth cid doc (FlowScene_init (scene_registry sc))"
    by (simp add: load_def cleared init [symmetric])
  have "create (scene_registry sc1) name = None"
    using unknown(3) kept empty(3) by simp
  then have "restore_node reparse bad sc1 = Raised ValueError sc1"
    by (simp add: restore_node_def unknown(1,2))
  then have "restore_nodes reparse (good @ bad # rest) sc0 = Raised ValueError sc1"
    by (simp add: restore_nodes_append restored)
  then have "load reparse depth cid
               (Json \<lparr>json_nodes = Some (good @ bad # rest), json_connections = conns\<rparr>) sc
           = Raised ValueError sc1"
    by (simp add: load_def cleared load_from_memory_def)
  moreover have "load reparse depth cid NotJson sc = Raised ValueError sc0"
    by (simp add: load_def cleared)
  moreover have "load reparse depth cid (Json \<lparr>json_nodes = None, json_connections = conns\<rparr>) sc
             = Raised KeyError sc0"
    by (simp add: load_def cleared load_from_memory_def)
  ultimately show ?thesis using empty kept init anything by simp
qed

theorem failed_load_leaves_cleared_scene_witness:
  "state_of (clear_scene 1000 addition_graph) = FlowScene_init (scene_registry addition_graph)
   \<and> load (\<lambda>x. x) 1000 20 (Json bad_connection_document) addition_graph
       = load_from_memory (\<lambda>x. x) 1000 20 bad_connection_document
           (FlowScene_init (scene_registry addition_graph))
   \<and> load (\<lambda>x. x) 1000 20
         (Json \<lparr>json_nodes = Some ([source_node_json] @ unknown_node_json # []),
                json_connections = Some []\<rparr>) addition_graph
       = Raised ValueError
           (state_of (restore_nodes (\<lambda>x. x) [source_node_json]
                        (state_of (clear_scene 1000 addition_graph))))
   \<and> load (\<lambda>x. x) 1000 20 NotJson addition_graph
       = Raised ValueError (state_of (clear_scene 1000 addition_graph))
   \<and> load (\<lambda>x. x) 1000 20 (Json \<lparr>json_nodes = None, json_connections = Some []\<rparr>) addition_graph
       = Raised KeyError (state_of (clear_scene 1000 addition_graph))
   \<and> scene_nodes (state_of (clear_scene 1000 addition_graph)) = []
   \<and> scene_connections (state_of (clear_scene 1000 addition_graph)) = []
   \<and> scene_connections
         (state_of (restore_nodes (\<lambda>x. x) [source_node_json]
                      (state_of (clear_scene 1000 addition_graph))))
       = []
   \<and> fst ` set (scene_nodes
         (state_of (restore_nodes (\<lambda>x. x) [source_node_json]
                      (state_of (clear_scene 1000 addition_graph)))))
       = json_id ` set [source_node_json]"
proof -
  have "returned (clear_scene 1000 addition_graph)" by code_simp
  then have h1: "clear_scene 1000 addition_graph = Done (state_of (clear_scene 1000 addition_graph))"
    by (rule returned_Done)
  have "returned (restore_nodes (\<lambda>x. x) [source_node_json]
                    (state_of (clear_scene 1000 addition_graph)))"
    by code_simp
  then have h2: "restore_nodes (\<lambda>x. x) [source_node_json] (state_of (clear_scene 1000 addition_graph))
      = Done (state_of (restore_nodes (\<lambda>x. x) [source_node_json]
                          (state_of (clear_scene 1000 addition_graph))))"
    by (rule returned_Done)
  have h3: "json_model unknown_node_json = Some \<lparr>json_name = Some ''Logarithm'', json_number = None\<rparr>"
    by (simp add: unknown_node_json_def)
  have h4: "json_name \<lparr>json_name = Some ''Logarithm'', json_number = None\<rparr> = Some ''Logarithm''"
    by simp
  have h5: "create (scene_registry addition_graph) ''Logarithm'' = None"
    by code_simp
  show ?thesis
    by (rule failed_load_leaves_cleared_scene [OF h1 h2 h3 h4 h5])
qed

text \<open>
  C3, as stated, fails: the wired Addition graph has three nodes and two connections; after
  \<open>load\<close> of a document naming an unregistered model has raised \<open>ValueError\<close>, the scene has
  no node and no connection. After \<open>load\<close> of a document whose second connection entry
  lacks its \<open>in_id\<close> has raised \<open>KeyError\<close>, the scene has the two nodes and the one
  connection of the document, and nothing of the graph from before.
\<close>

theorem failed_load_loses_prior_graph:
  "map fst (scene_nodes addition_graph) = [1, 2, 3]
   \<and> map conn_id (scene_connections addition_graph) = [10, 11]
   \<and> (case load (\<lambda>x. x) 1000 20 (Json unknown_model_document) addition_graph of
         Raised e sc \<Rightarrow> Some (e, map fst (scene_nodes sc), map conn_id (scene_connections sc))
       | Done sc \<Rightarrow> None)
       = Some (ValueError, [], [])
   \<and> (case load (\<lambda>x. x) 1000 20 (Json bad_connection_document) addition_graph of
         Raised e sc \<Rightarrow> Some (e, map fst (scene_nodes sc), map conn_id (scene_connections sc))
       | Done sc \<Rightarrow> None)
       = Some (KeyError, [8, 9], [20])"
  by code_simp

text \<open>
  A connection entry without a converter, which is what a connection created with
  \<open>converter=None\<close> saves to, never restores: \<open>restore_connection\<close> raises and leaves the
  scene as it was.
\<close>

lemma restore_connection_without_converter:
  "json_converter cj = None \<Longrightarrow>
   restore_connection depth cid cj sc = Raised KeyError sc
   \<or> restore_connection depth cid cj sc = Raised TypeError sc"
  by (auto simp: restore_connection_def get_converter_def split: option.splits)

text \<open>
  C2. Saving the wired Addition graph gives a document with its two connections, neither
  with a converter; loading that document into an empty scene with the same registry
  restores the three nodes and then raises \<open>TypeError\<close> at the first connection, so the
  loaded scene has no connection, whatever the line edits make of the saved numbers. (The
  property asks for the same connection topology.)
\<close>

theorem load_of_saved_graph_raises:
  "map_option
     (map (\<lambda>cj. (json_out_id cj, json_out_index cj, json_in_id cj, json_in_index cj,
                  json_converter cj)))
     (json_connections (save_to_memory addition_graph))
     = Some [(Some 1, Some 0, Some 3, Some 0, None), (Some 2, Some 0, Some 3, Some 1, None)]
   \<and> (case load_from_memory reparse 1000 20 (save_to_memory addition_graph)
              (FlowScene_init main_registry) of
         Raised e sc \<Rightarrow> Some (e, map fst (scene_nodes sc), map conn_id (scene_connections sc))
       | Done sc \<Rightarrow> None)
       = Some (TypeError, [1, 2, 3], [])"
  by code_simp

end
